theory Spec2Isabelle
  imports Main "HOL-Library.Word"
begin

section \<open>OSPF neighbour discovery (ospf-l4-protocol.cc / ospf-l4-protocol.h)\<close>

text \<open>
  A shallow embedding of the adjacency state machine of \<^verbatim>\<open>OspfL4Protocol\<close>:
  \<^verbatim>\<open>Receive\<close>, the three \<^verbatim>\<open>Handle*Response\<close> handlers, the three
  \<^verbatim>\<open>Send*Packet\<close> senders, \<^verbatim>\<open>Send\<close> and \<^verbatim>\<open>startDownState\<close>.
  The protocol object is a record that is passed in and returned updated. The callback
  \<^verbatim>\<open>m_downTarget\<close> is modelled by the list of packets handed to it, in order; it
  is taken to be set, as \<^verbatim>\<open>NotifyNewAggregate\<close> leaves it.
\<close>

subsection \<open>Constants and enumerations\<close>

type_synonym Ipv4Address = "32 word"
type_synonym Ipv4Mask = "32 word"

text \<open>\<^verbatim>\<open>#define OSPF_ALL_NODE "224.0.0.5"\<close>\<close>

definition OSPF_ALL_NODE :: Ipv4Address where
  "OSPF_ALL_NODE = 0xE0000005"

text \<open>\<^verbatim>\<open>const uint8_t OspfL4Protocol::PROTOCOL_NUMBER = 89\<close>\<close>

definition PROTOCOL_NUMBER :: "8 word" where
  "PROTOCOL_NUMBER = 89"

text \<open>
  \<^verbatim>\<open>enum States\<close> and \<^verbatim>\<open>enum PacketType\<close> of the header file. The code stores
  and compares them as \<^verbatim>\<open>int\<close>, so each comes with its integer code.
\<close>

datatype States = DOWN | ATTEMPT | INIT | TWO_WAY | EXSTART | EXCHANGE | LOADING | FULL

fun States_int :: "States \<Rightarrow> int" where
  "States_int DOWN = 0"
| "States_int ATTEMPT = 1"
| "States_int INIT = 2"
| "States_int TWO_WAY = 3"
| "States_int EXSTART = 4"
| "States_int EXCHANGE = 5"
| "States_int LOADING = 6"
| "States_int FULL = 7"

datatype PacketType = HELLO | DBD | LSA | LSU | LSAck

fun PacketType_int :: "PacketType \<Rightarrow> int" where
  "PacketType_int HELLO = 0"
| "PacketType_int DBD = 1"
| "PacketType_int LSA = 2"
| "PacketType_int LSU = 3"
| "PacketType_int LSAck = 4"

text \<open>
  The address scope the senders test (\<^verbatim>\<open>Ipv4InterfaceAddress::HOST\<close>), and the
  status \<^verbatim>\<open>Receive\<close> returns (\<^verbatim>\<open>IpL4Protocol::RX_OK\<close>).
\<close>

datatype InterfaceAddressScope_e = HOST | LINK | GLOBAL

datatype RxStatus = RX_OK | RX_CSUM_FAILED | RX_ENDPOINT_CLOSED | RX_ENDPOINT_UNREACH

subsection \<open>Collaborators of the network stack\<close>

text \<open>
  The classes of the surrounding stack are not part of the protocol file. They are taken
  as data holding exactly what the protocol reads from them: an interface address gives its
  local address, mask and scope; an interface gives the address at an index
  (\<^verbatim>\<open>interface->GetAddress(incomingIf)\<close>); an IPv4 header gives source and
  destination. Indices (\<^verbatim>\<open>uint32_t\<close>) are natural numbers: the code only compares them
  and counts a loop up to a bound. \<^verbatim>\<open>GetAddress\<close> is taken as total: what the stack
  does with an index that has no address is outside the protocol file.
\<close>

record Ipv4InterfaceAddress =
  GetLocal :: Ipv4Address
  GetMask :: Ipv4Mask
  GetScope :: InterfaceAddressScope_e

record Ipv4Interface =
  GetAddress :: "nat \<Rightarrow> Ipv4InterfaceAddress"

record Ipv4Header =
  GetSource :: Ipv4Address
  GetDestination :: Ipv4Address

text \<open>
  \<^verbatim>\<open>Ptr<Ipv4> m_ipv4\<close> as \<^verbatim>\<open>startDownState\<close> uses it: the number of interfaces,
  whether the device of interface \<open>i\<close> casts to \<^verbatim>\<open>LoopbackNetDevice\<close>, the number of
  addresses of interface \<open>i\<close>, the address \<open>j\<close> of interface \<open>i\<close>, and the forwarding flag
  that \<^verbatim>\<open>SetForwarding\<close> writes.
\<close>

record Ipv4 =
  GetNInterfaces :: nat
  IsLoopbackNetDevice :: "nat \<Rightarrow> bool"
  GetNAddresses :: "nat \<Rightarrow> nat"
  GetAddressOf :: "nat \<Rightarrow> nat \<Rightarrow> Ipv4InterfaceAddress"
  IsForwarding :: "nat \<Rightarrow> bool"

definition SetForwarding :: "Ipv4 \<Rightarrow> nat \<Rightarrow> bool \<Rightarrow> Ipv4" where
  "SetForwarding ipv4 i val = ipv4\<lparr>IsForwarding := (IsForwarding ipv4)(i := val)\<rparr>"

subsection \<open>Neighbour records, headers and packets\<close>

text \<open>
  A neighbour record has the five attributes \<^verbatim>\<open>addNeighbors\<close> is called with; the
  handlers read \<^verbatim>\<open>router_id\<close> and \<^verbatim>\<open>ipInterface\<close>. A \<^verbatim>\<open>neighborList\<close> is a
  sequence of rows of records, traversed by two nested loops.
\<close>

record NeighborItems =
  ipAddress :: Ipv4Address
  ipMask :: Ipv4Mask
  ipInterface :: Ipv4Interface
  state :: int
  router_id :: "32 word"

type_synonym neighborList = "NeighborItems list list"

text \<open>
  The envelope \<^verbatim>\<open>OspfHeader\<close> (the fields \<^verbatim>\<open>Send\<close> sets and \<^verbatim>\<open>Receive\<close> reads)
  and the body \<^verbatim>\<open>OspfHello\<close> (the fields the senders set and the handlers read).
  \<^verbatim>\<open>ospfHeader.GetMask()\<close> is \<open>GetHeaderMask\<close>, since the interface address has a
  \<^verbatim>\<open>GetMask\<close> of its own.
\<close>

record OspfHeader =
  GetState :: int
  GetPacketType :: int
  GetHeaderMask :: Ipv4Mask

record OspfHello =
  getNeighbors :: neighborList
  getRouterId :: "32 word"
  getAreaId :: int

text \<open>
  An arriving packet, as the protocol sees it: what \<^verbatim>\<open>PeekHeader\<close> yields for the
  envelope and for the body, and the \<^verbatim>\<open>Ipv4PacketInfoTag\<close> (its \<^verbatim>\<open>GetRecvIf\<close>)
  if the packet carries one.
\<close>

record Packet =
  PeekOspfHeader :: OspfHeader
  PeekOspfHello :: OspfHello
  PacketInfoTag :: "nat option"

text \<open>
  A packet handed to \<^verbatim>\<open>m_downTarget\<close>: the envelope as \<^verbatim>\<open>Send\<close> filled it, the
  body the sender composed, source, destination and protocol number.
\<close>

record DownTargetCall =
  txHeader :: OspfHeader
  txHello :: OspfHello
  txSaddr :: Ipv4Address
  txDaddr :: Ipv4Address
  txProtocol :: "8 word"

subsection \<open>The neighbour table\<close>

text \<open>
  The inlined search of the handlers:
  \<^verbatim>\<open>for (row : rows) for (items : row) if (items.router_id == id) check = true;\<close>
  with the flag starting at \<^verbatim>\<open>false\<close>.
\<close>

definition scan_router_id :: "32 word \<Rightarrow> neighborList \<Rightarrow> bool" where
  "scan_router_id rid rows =
     fold (\<lambda>row check.
             fold (\<lambda>neighborItems check.
                     if router_id neighborItems = rid then True else check) row check)
          rows False"

type_synonym OspfNeighborTable = neighborList

text \<open>
  Modelled from the spec: the class \<^verbatim>\<open>OspfNeighborTable\<close> (ospf-neighbor-table) is
  not among the sources; only its calls are. The table owns rows of records and
  \<^verbatim>\<open>getCurrentNeighbors\<close> returns a copy of all rows.
\<close>

definition getCurrentNeighbors :: "OspfNeighborTable \<Rightarrow> neighborList" where
  "getCurrentNeighbors t = t"

text \<open>
  Modelled from the spec: \<^verbatim>\<open>addNeighbors\<close> is missing from the sources. It inserts a
  new record if no record with this router id exists, and has no effect otherwise; the new
  record is a row of its own (one row per discovery event).
\<close>

definition addNeighbors ::
  "OspfNeighborTable \<Rightarrow> Ipv4Address \<Rightarrow> Ipv4Mask \<Rightarrow> Ipv4Interface \<Rightarrow> int \<Rightarrow> 32 word
     \<Rightarrow> OspfNeighborTable" where
  "addNeighbors t addr ipv4Mask iface st rid =
     (if scan_router_id rid t then t
      else t @ [[\<lparr>ipAddress = addr, ipMask = ipv4Mask, ipInterface = iface,
                  state = st, router_id = rid\<rparr>]])"

text \<open>
  Modelled from the spec: the value \<^verbatim>\<open>get_State\<close> returns for a router id without a
  record is missing from the sources. It is an explicit not-found signal, no default that
  could be confused with a state; the handler keeps the result in an \<^verbatim>\<open>int\<close>, so the
  signal is an integer outside the codes of \<^verbatim>\<open>States\<close>.
\<close>

definition NOT_FOUND :: int where
  "NOT_FOUND = -1"

text \<open>
  Modelled from the spec: \<^verbatim>\<open>get_State\<close> is missing from the sources. It returns the
  state of the record with the given router id.
\<close>

definition get_State :: "OspfNeighborTable \<Rightarrow> 32 word \<Rightarrow> int" where
  "get_State t rid =
     (case filter (\<lambda>r. router_id r = rid) (concat t) of
        [] \<Rightarrow> NOT_FOUND
      | r # _ \<Rightarrow> state r)"

text \<open>
  Modelled from the spec: \<^verbatim>\<open>set_State\<close> is missing from the sources. It writes the
  state of the record with the given router id, with no validation of the transition; it
  inserts nothing.
\<close>

definition set_State :: "OspfNeighborTable \<Rightarrow> int \<Rightarrow> 32 word \<Rightarrow> OspfNeighborTable" where
  "set_State t st rid =
     map (map (\<lambda>r. if router_id r = rid then r\<lparr>state := st\<rparr> else r)) t"

subsection \<open>The protocol object\<close>

text \<open>
  The members of \<^verbatim>\<open>OspfL4Protocol\<close> the discovery code touches, and \<open>downTarget\<close>, the
  packets handed to \<^verbatim>\<open>m_downTarget\<close> so far (oldest first).
\<close>

record OspfL4Protocol =
  m_ipv4 :: Ipv4
  m_interfaceExclusions :: "nat set"
  m_neighbor_table :: OspfNeighborTable
  m_routerId :: "32 word"
  m_areaId :: int
  downTarget :: "DownTargetCall list"

text \<open>
  \<^verbatim>\<open>Send(packet, saddr, daddr, ipv4Mask, ospfHeader, packetType, currentState)\<close>:
  sets state, packet type and mask of the header, adds it to the packet and calls
  \<^verbatim>\<open>m_downTarget(packet, saddr, daddr, PROTOCOL_NUMBER, nullptr)\<close>. The checksum that
  \<^verbatim>\<open>InitializeChecksum\<close> prepares belongs to the wire encoding and is not modelled.
\<close>

definition Send ::
  "Ipv4Address \<Rightarrow> Ipv4Address \<Rightarrow> Ipv4Mask \<Rightarrow> OspfHello \<Rightarrow> int \<Rightarrow> int
     \<Rightarrow> OspfL4Protocol \<Rightarrow> OspfL4Protocol" where
  "Send saddr daddr ipv4Mask helloHeader packetType currentState s =
     s\<lparr>downTarget := downTarget s @
         [\<lparr>txHeader = \<lparr>GetState = currentState, GetPacketType = packetType,
                        GetHeaderMask = ipv4Mask\<rparr>,
           txHello = helloHeader, txSaddr = saddr, txDaddr = daddr,
           txProtocol = PROTOCOL_NUMBER\<rparr>]\<rparr>"

text \<open>The body every sender composes: current neighbours, own router id, own area.\<close>

definition helloHeader_of :: "OspfL4Protocol \<Rightarrow> OspfHello" where
  "helloHeader_of s =
     \<lparr>getNeighbors = getCurrentNeighbors (m_neighbor_table s),
      getRouterId = m_routerId s, getAreaId = m_areaId s\<rparr>"

definition SendDownPacket :: "Ipv4InterfaceAddress \<Rightarrow> OspfL4Protocol \<Rightarrow> OspfL4Protocol" where
  "SendDownPacket address s =
     (let helloHeader = helloHeader_of s in
      if GetScope address \<noteq> HOST
      then Send (GetLocal address) OSPF_ALL_NODE (GetMask address) helloHeader
             (PacketType_int HELLO) (States_int DOWN) s
      else s)"

definition SendInitPacket ::
  "Ipv4InterfaceAddress \<Rightarrow> Ipv4Address \<Rightarrow> OspfL4Protocol \<Rightarrow> OspfL4Protocol" where
  "SendInitPacket address daddr s =
     (let helloHeader = helloHeader_of s in
      if GetScope address \<noteq> HOST
      then Send (GetLocal address) daddr (GetMask address) helloHeader
             (PacketType_int HELLO) (States_int INIT) s
      else s)"

definition SendTwoWayPacket ::
  "Ipv4InterfaceAddress \<Rightarrow> Ipv4Address \<Rightarrow> OspfL4Protocol \<Rightarrow> OspfL4Protocol" where
  "SendTwoWayPacket address daddr s =
     (let helloHeader = helloHeader_of s in
      if GetScope address \<noteq> HOST
      then Send (GetLocal address) daddr (GetMask address) helloHeader
             (PacketType_int HELLO) (States_int TWO_WAY) s
      else s)"

subsection \<open>The handlers\<close>

definition HandleDownResponse ::
  "Packet \<Rightarrow> Ipv4Header \<Rightarrow> OspfHeader \<Rightarrow> Ipv4Interface \<Rightarrow> nat
     \<Rightarrow> OspfL4Protocol \<Rightarrow> OspfL4Protocol" where
  "HandleDownResponse packet header ospfHeader interface incomingIf s =
     (let helloHeader = PeekOspfHello packet in
      if getAreaId helloHeader = m_areaId s
         \<and> GetHeaderMask ospfHeader = GetMask (GetAddress interface incomingIf)
      then
        SendInitPacket (GetAddress interface incomingIf) (GetSource header)
          (s\<lparr>m_neighbor_table :=
               addNeighbors (m_neighbor_table s) (GetSource header)
                 (GetHeaderMask ospfHeader) interface (GetState ospfHeader)
                 (getRouterId helloHeader)\<rparr>)
      else s)"

definition HandleInitResponse ::
  "Packet \<Rightarrow> Ipv4Header \<Rightarrow> OspfHeader \<Rightarrow> Ipv4Interface \<Rightarrow> nat
     \<Rightarrow> OspfL4Protocol \<Rightarrow> OspfL4Protocol" where
  "HandleInitResponse packet header ospfHeader interface incomingIf s =
     (let helloHeader = PeekOspfHello packet;
          neighbors = getNeighbors helloHeader in
      if neighbors = [] then SendDownPacket (GetAddress interface incomingIf) s
      else
        let check = scan_router_id (m_routerId s) neighbors;
            check = (if getAreaId helloHeader \<noteq> m_areaId s then False else check) in
        if check then
          let m_current_neighbors = getCurrentNeighbors (m_neighbor_table s);
              add_neighbor =
                (if m_current_neighbors = [] then True
                 else
                   let iterator_check =
                         scan_router_id (getRouterId helloHeader) m_current_neighbors in
                   if iterator_check then False else True) in
          if add_neighbor then
            SendTwoWayPacket (GetAddress interface incomingIf) (GetSource header)
              (s\<lparr>m_neighbor_table :=
                   addNeighbors (m_neighbor_table s) (GetSource header)
                     (GetHeaderMask ospfHeader) interface (GetState ospfHeader)
                     (getRouterId helloHeader)\<rparr>)
          else
            SendTwoWayPacket (GetAddress interface incomingIf) (GetSource header)
              (s\<lparr>m_neighbor_table :=
                   set_State (m_neighbor_table s) (States_int INIT) (m_routerId s)\<rparr>)
        else SendDownPacket (GetAddress interface incomingIf) s)"

definition HandleTwoWayResponse ::
  "Packet \<Rightarrow> Ipv4Header \<Rightarrow> OspfHeader \<Rightarrow> Ipv4Interface \<Rightarrow> nat
     \<Rightarrow> OspfL4Protocol \<Rightarrow> OspfL4Protocol" where
  "HandleTwoWayResponse packet header ospfHeader interface incomingIf s =
     (let helloHeader = PeekOspfHello packet;
          neighbors = getNeighbors helloHeader in
      if neighbors = [] then SendDownPacket (GetAddress interface incomingIf) s
      else
        let check = scan_router_id (m_routerId s) neighbors;
            check = (if getAreaId helloHeader \<noteq> m_areaId s then False else check) in
        if check then
          let m_current_neighbors = getCurrentNeighbors (m_neighbor_table s);
              neighbor_exist =
                (if m_current_neighbors = [] then False
                 else
                   let iterator_check =
                         scan_router_id (getRouterId helloHeader) m_current_neighbors in
                   if iterator_check then True else False) in
          if neighbor_exist then
            let st = get_State (m_neighbor_table s) (m_routerId s) in
            if st = States_int TWO_WAY then s
            else
              SendTwoWayPacket (GetAddress interface incomingIf) (GetSource header)
                (s\<lparr>m_neighbor_table :=
                     set_State (m_neighbor_table s) (States_int TWO_WAY) (m_routerId s)\<rparr>)
          else SendDownPacket (GetAddress interface incomingIf) s
        else SendDownPacket (GetAddress interface incomingIf) s)"

subsection \<open>Receive\<close>

text \<open>
  \<^verbatim>\<open>NS_ABORT_MSG\<close> ends the program; it is the error value of the model. After the
  tag is read, the three tests on the state of the header run one after the other.
\<close>

datatype error = ABORT_No_incoming_interface

definition Receive ::
  "Packet \<Rightarrow> Ipv4Header \<Rightarrow> Ipv4Interface \<Rightarrow> OspfL4Protocol
     \<Rightarrow> error + RxStatus \<times> OspfL4Protocol" where
  "Receive packet header interface s =
     (let ospfHeader = PeekOspfHeader packet in
      case PacketInfoTag packet of
        None \<Rightarrow> Inl ABORT_No_incoming_interface
      | Some incomingIf \<Rightarrow>
          let s1 = (if GetState ospfHeader = States_int DOWN
                    then HandleDownResponse packet header ospfHeader interface incomingIf s
                    else s);
              s2 = (if GetState ospfHeader = States_int INIT
                    then HandleInitResponse packet header ospfHeader interface incomingIf s1
                    else s1);
              s3 = (if GetState ospfHeader = States_int TWO_WAY
                    then HandleTwoWayResponse packet header ospfHeader interface incomingIf s2
                    else s2)
          in Inr (RX_OK, s3))"

subsection \<open>The bootstrap announcement\<close>

text \<open>
  \<^verbatim>\<open>startDownState\<close>: the inner test whether a local address is already reported in
  the table, the loop over the addresses of one interface, and the loop over the
  interfaces. The snapshot of the table is taken once, before the loops. The comparison
  \<^verbatim>\<open>address == tableItems.ipInterface->GetAddress(i)\<close> is equality of the modelled
  fields.
\<close>

definition isInterfaceFull :: "neighborList \<Rightarrow> Ipv4InterfaceAddress \<Rightarrow> nat \<Rightarrow> bool" where
  "isInterfaceFull neighbor_table address i =
     (if neighbor_table \<noteq> [] then
        fold (\<lambda>row full.
                fold (\<lambda>tableItems full.
                        if address = GetAddress (ipInterface tableItems) i then True else full)
                     row full)
             neighbor_table False
      else False)"

definition startDownState_address ::
  "neighborList \<Rightarrow> bool \<Rightarrow> nat \<Rightarrow> nat \<Rightarrow> OspfL4Protocol \<Rightarrow> OspfL4Protocol" where
  "startDownState_address neighbor_table activeInterface i j s =
     (let address = GetAddressOf (m_ipv4 s) i j in
      if GetScope address \<noteq> HOST \<and> activeInterface then
        if \<not> isInterfaceFull neighbor_table address i then SendDownPacket address s else s
      else s)"

definition startDownState_interface ::
  "neighborList \<Rightarrow> nat \<Rightarrow> OspfL4Protocol \<Rightarrow> OspfL4Protocol" where
  "startDownState_interface neighbor_table i s =
     (if IsLoopbackNetDevice (m_ipv4 s) i then s
      else
        let activeInterface = (i \<notin> m_interfaceExclusions s);
            s1 = (if activeInterface
                  then s\<lparr>m_ipv4 := SetForwarding (m_ipv4 s) i True\<rparr> else s) in
        fold (startDownState_address neighbor_table activeInterface i)
             [0..<GetNAddresses (m_ipv4 s1) i] s1)"

definition startDownState :: "OspfL4Protocol \<Rightarrow> OspfL4Protocol" where
  "startDownState s =
     (let neighbor_table = getCurrentNeighbors (m_neighbor_table s) in
      fold (startDownState_interface neighbor_table) [0..<GetNInterfaces (m_ipv4 s)] s)"

subsection \<open>Describing what was sent\<close>

text \<open>
  The packet a sender hands to the transport from local address \<open>address\<close> to \<open>daddr\<close>
  with declared state \<open>st\<close>, composed in protocol state \<open>s\<close>.
\<close>

definition hello_packet ::
  "States \<Rightarrow> Ipv4InterfaceAddress \<Rightarrow> Ipv4Address \<Rightarrow> OspfL4Protocol \<Rightarrow> DownTargetCall" where
  "hello_packet st address daddr s =
     \<lparr>txHeader = \<lparr>GetState = States_int st, GetPacketType = PacketType_int HELLO,
                    GetHeaderMask = GetMask address\<rparr>,
      txHello = helloHeader_of s, txSaddr = GetLocal address, txDaddr = daddr,
      txProtocol = PROTOCOL_NUMBER\<rparr>"

subsection \<open>Concrete routers and packets\<close>

text \<open>
  Router 1 (10.0.1.1/24, area 0) and its peer, router 2 (10.0.1.2), on the link of the
  starter topology; interface 0 of router 1 is the loopback (127.0.0.1/8, host scope).
\<close>

definition ex_address :: Ipv4InterfaceAddress where
  "ex_address = \<lparr>GetLocal = 0x0A000101, GetMask = 0xFFFFFF00, GetScope = GLOBAL\<rparr>"

definition ex_loopback_address :: Ipv4InterfaceAddress where
  "ex_loopback_address = \<lparr>GetLocal = 0x7F000001, GetMask = 0xFF000000, GetScope = HOST\<rparr>"

definition ex_interface :: Ipv4Interface where
  "ex_interface = \<lparr>GetAddress = (\<lambda>i. ex_address)\<rparr>"

definition ex_loopback_interface :: Ipv4Interface where
  "ex_loopback_interface = \<lparr>GetAddress = (\<lambda>i. ex_loopback_address)\<rparr>"

definition ex_ipv4 :: Ipv4 where
  "ex_ipv4 =
     \<lparr>GetNInterfaces = 2, IsLoopbackNetDevice = (\<lambda>i. i = 0), GetNAddresses = (\<lambda>i. 1),
      GetAddressOf = (\<lambda>i j. if i = 0 then ex_loopback_address else ex_address),
      IsForwarding = (\<lambda>i. False)\<rparr>"

definition ex_header :: Ipv4Header where
  "ex_header = \<lparr>GetSource = 0x0A000102, GetDestination = 0x0A000101\<rparr>"

definition ex_peer_record :: NeighborItems where
  "ex_peer_record =
     \<lparr>ipAddress = 0x0A000102, ipMask = 0xFFFFFF00, ipInterface = ex_interface,
      state = 0, router_id = 2\<rparr>"

definition ex_self_record :: NeighborItems where
  "ex_self_record =
     \<lparr>ipAddress = 0x0A000101, ipMask = 0xFFFFFF00, ipInterface = ex_interface,
      state = 0, router_id = 1\<rparr>"

definition ex_router :: "OspfNeighborTable \<Rightarrow> OspfL4Protocol" where
  "ex_router t =
     \<lparr>m_ipv4 = ex_ipv4, m_interfaceExclusions = {}, m_neighbor_table = t,
      m_routerId = 1, m_areaId = 0, downTarget = []\<rparr>"

definition ex_ospfHeader :: "States \<Rightarrow> Ipv4Mask \<Rightarrow> OspfHeader" where
  "ex_ospfHeader st m =
     \<lparr>GetState = States_int st, GetPacketType = PacketType_int HELLO, GetHeaderMask = m\<rparr>"

definition ex_packet :: "States \<Rightarrow> Ipv4Mask \<Rightarrow> neighborList \<Rightarrow> int \<Rightarrow> nat option \<Rightarrow> Packet" where
  "ex_packet st m snapshot area tag =
     \<lparr>PeekOspfHeader = ex_ospfHeader st m,
      PeekOspfHello = \<lparr>getNeighbors = snapshot, getRouterId = 2, getAreaId = area\<rparr>,
      PacketInfoTag = tag\<rparr>"

lemmas ex_defs =
  ex_address_def ex_loopback_address_def ex_interface_def ex_loopback_interface_def
  ex_ipv4_def ex_header_def ex_peer_record_def ex_self_record_def ex_router_def
  ex_ospfHeader_def ex_packet_def

section \<open>Properties\<close>

subsection \<open>The search loops\<close>

lemma fold_flag_row:
  "fold (\<lambda>n c. if P n then True else c) row c = (c \<or> (\<exists>n\<in>set row. P n))"
  by (induction row arbitrary: c) auto

lemma fold_flag_rows:
  "fold (\<lambda>row c. fold (\<lambda>n c. if P n then True else c) row c) rows c
     = (c \<or> (\<exists>row\<in>set rows. \<exists>n\<in>set row. P n))"
  by (induction rows arbitrary: c) (auto simp: fold_flag_row)

lemma scan_router_id_iff:
  "scan_router_id rid rows = (\<exists>row\<in>set rows. \<exists>n\<in>set row. router_id n = rid)"
  by (simp add: scan_router_id_def fold_flag_rows)

lemma scan_router_id_concat:
  "scan_router_id rid rows = (rid \<in> router_id ` set (concat rows))"
  by (auto simp: scan_router_id_iff)

lemma scan_router_id_Nil: "scan_router_id rid [] = False"
  by (simp add: scan_router_id_def)

subsection \<open>The senders\<close>

lemma SendDownPacket_eq:
  "SendDownPacket a s =
     s\<lparr>downTarget := downTarget s @
         (if GetScope a \<noteq> HOST then [hello_packet DOWN a OSPF_ALL_NODE s] else [])\<rparr>"
  by (simp add: SendDownPacket_def Send_def hello_packet_def Let_def)

lemma SendInitPacket_eq:
  "SendInitPacket a d s =
     s\<lparr>downTarget := downTarget s @
         (if GetScope a \<noteq> HOST then [hello_packet INIT a d s] else [])\<rparr>"
  by (simp add: SendInitPacket_def Send_def hello_packet_def Let_def)

lemma SendTwoWayPacket_eq:
  "SendTwoWayPacket a d s =
     s\<lparr>downTarget := downTarget s @
         (if GetScope a \<noteq> HOST then [hello_packet TWO_WAY a d s] else [])\<rparr>"
  by (simp add: SendTwoWayPacket_def Send_def hello_packet_def Let_def)

lemmas Send_eqs = SendDownPacket_eq SendInitPacket_eq SendTwoWayPacket_eq

lemmas Handle_defs = HandleDownResponse_def HandleInitResponse_def HandleTwoWayResponse_def

subsection \<open>The neighbour table\<close>

lemma concat_set_State:
  "concat (set_State t st rid)
     = map (\<lambda>r. if router_id r = rid then r\<lparr>state := st\<rparr> else r) (concat t)"
  by (simp add: set_State_def map_concat)

lemma router_id_set_State:
  "map router_id (concat (set_State t st rid)) = map router_id (concat t)"
  by (simp add: concat_set_State o_def if_distrib cong: if_cong)

lemma scan_router_id_set_State:
  "scan_router_id rid' (set_State t st rid) = scan_router_id rid' t"
proof -
  have "set (map router_id (concat (set_State t st rid))) = set (map router_id (concat t))"
    by (simp only: router_id_set_State)
  then show ?thesis
    by (simp add: scan_router_id_concat)
qed

lemma filter_map_set_State:
  "filter (\<lambda>r. router_id r = rid')
      (map (\<lambda>r. if router_id r = rid then r\<lparr>state := st\<rparr> else r) xs)
   = map (\<lambda>r. if router_id r = rid then r\<lparr>state := st\<rparr> else r)
       (filter (\<lambda>r. router_id r = rid') xs)"
  by (induction xs) auto

lemma get_State_set_State_same:
  assumes "scan_router_id rid t"
  shows "get_State (set_State t st rid) rid = st"
proof -
  from assms obtain r rs where eq: "filter (\<lambda>r. router_id r = rid) (concat t) = r # rs"
    by (cases "filter (\<lambda>r. router_id r = rid) (concat t)")
       (auto simp: scan_router_id_concat filter_empty_conv)
  then have "r \<in> set (filter (\<lambda>r. router_id r = rid) (concat t))"
    by simp
  then have "router_id r = rid"
    by simp
  with eq show ?thesis
    by (simp add: get_State_def concat_set_State filter_map_set_State)
qed

lemma get_State_set_State_other:
  assumes "rid' \<noteq> rid"
  shows "get_State (set_State t st rid) rid' = get_State t rid'"
proof -
  have same: "map (\<lambda>r. if router_id r = rid then r\<lparr>state := st\<rparr> else r)
          (filter (\<lambda>r. router_id r = rid') xs) = filter (\<lambda>r. router_id r = rid') xs"
    for xs :: "NeighborItems list"
    using assms by (induction xs) auto
  show ?thesis
    by (simp add: get_State_def concat_set_State filter_map_set_State same)
qed

lemma get_State_absent:
  assumes "\<not> scan_router_id rid t"
  shows "get_State t rid = NOT_FOUND"
proof -
  have "filter (\<lambda>r. router_id r = rid) (concat t) = []"
    using assms by (auto simp: scan_router_id_concat filter_empty_conv)
  then show ?thesis
    by (simp add: get_State_def)
qed

lemma NOT_FOUND_no_state: "States_int st \<noteq> NOT_FOUND"
  by (cases st) (simp_all add: NOT_FOUND_def)

lemma concat_addNeighbors:
  "concat (addNeighbors t a m i st r) =
     (if scan_router_id r t then concat t
      else concat t @ [\<lparr>ipAddress = a, ipMask = m, ipInterface = i, state = st, router_id = r\<rparr>])"
  by (simp add: addNeighbors_def)

lemma scan_router_id_addNeighbors:
  "scan_router_id r (addNeighbors t a m i st r)"
  by (auto simp: scan_router_id_concat concat_addNeighbors)

lemma addNeighbors_idem:
  "addNeighbors (addNeighbors t a1 m1 i1 s1 r) a2 m2 i2 s2 r = addNeighbors t a1 m1 i1 s1 r"
  using scan_router_id_addNeighbors [of r t a1 m1 i1 s1]
  by (simp add: addNeighbors_def [of "addNeighbors t a1 m1 i1 s1 r"])

lemma distinct_addNeighbors:
  "distinct (map router_id (concat t)) \<Longrightarrow>
     distinct (map router_id (concat (addNeighbors t a m i st r)))"
  by (auto simp: concat_addNeighbors scan_router_id_concat)

lemma distinct_set_State:
  "distinct (map router_id (concat t)) \<Longrightarrow>
     distinct (map router_id (concat (set_State t st r)))"
  by (simp only: router_id_set_State)

lemma filter_absent:
  "\<not> scan_router_id r t \<Longrightarrow> filter (\<lambda>x. router_id x = r) (concat t) = []"
  by (auto simp: scan_router_id_concat filter_empty_conv)

lemma distinct_filter_one:
  fixes xs :: "NeighborItems list"
  shows "distinct (map router_id xs) \<Longrightarrow> r \<in> router_id ` set xs \<Longrightarrow>
     length (filter (\<lambda>x. router_id x = r) xs) = 1"
proof (induction xs)
  case Nil
  then show ?case by simp
next
  case (Cons x xs)
  show ?case
  proof (cases "router_id x = r")
    case True
    with Cons.prems have "filter (\<lambda>x. router_id x = r) xs = []"
      by (auto simp: filter_empty_conv image_iff)
    with True show ?thesis by simp
  next
    case False
    with Cons show ?thesis by auto
  qed
qed

subsection \<open>The handlers once the proof of mutual visibility has passed\<close>

lemma HandleTwoWayResponse_known:
  assumes "scan_router_id (m_routerId s) (getNeighbors (PeekOspfHello packet))"
    and "getAreaId (PeekOspfHello packet) = m_areaId s"
    and "scan_router_id (getRouterId (PeekOspfHello packet)) (m_neighbor_table s)"
  shows "HandleTwoWayResponse packet header ospfHeader interface incomingIf s =
     (if get_State (m_neighbor_table s) (m_routerId s) = States_int TWO_WAY then s
      else SendTwoWayPacket (GetAddress interface incomingIf) (GetSource header)
             (s\<lparr>m_neighbor_table :=
                  set_State (m_neighbor_table s) (States_int TWO_WAY) (m_routerId s)\<rparr>))"
proof -
  have "getNeighbors (PeekOspfHello packet) \<noteq> []" "m_neighbor_table s \<noteq> []"
    using assms(1,3) by (auto simp: scan_router_id_Nil)
  then show ?thesis
    using assms by (simp add: HandleTwoWayResponse_def Let_def getCurrentNeighbors_def)
qed

lemma HandleInitResponse_known:
  assumes "scan_router_id (m_routerId s) (getNeighbors (PeekOspfHello packet))"
    and "getAreaId (PeekOspfHello packet) = m_areaId s"
    and "scan_router_id (getRouterId (PeekOspfHello packet)) (m_neighbor_table s)"
  shows "HandleInitResponse packet header ospfHeader interface incomingIf s =
     SendTwoWayPacket (GetAddress interface incomingIf) (GetSource header)
       (s\<lparr>m_neighbor_table :=
            set_State (m_neighbor_table s) (States_int INIT) (m_routerId s)\<rparr>)"
proof -
  have "getNeighbors (PeekOspfHello packet) \<noteq> []" "m_neighbor_table s \<noteq> []"
    using assms(1,3) by (auto simp: scan_router_id_Nil)
  then show ?thesis
    using assms by (simp add: HandleInitResponse_def Let_def getCurrentNeighbors_def)
qed

subsection \<open>Packets of another area\<close>

text \<open>
  Claim C1, as the code has it. A packet whose area differs from the local area never
  changes the neighbour table. The Down handler sends nothing for it. The Init and the
  Two-Way handler treat the foreign area as a failed proof of mutual visibility and restart
  discovery: they hand one Down-state packet for 224.0.0.5 to the transport, unless the
  address of the receiving interface has host scope, and then nothing.
\<close>

theorem area_mismatch_only_restarts:
  "getAreaId (PeekOspfHello packet) \<noteq> m_areaId s \<Longrightarrow>
     (let a = GetAddress interface incomingIf;
          restart = (if GetScope a \<noteq> HOST then [hello_packet DOWN a OSPF_ALL_NODE s] else [])
      in HandleDownResponse packet header ospfHeader interface incomingIf s = s
       \<and> HandleInitResponse packet header ospfHeader interface incomingIf s
           = s\<lparr>downTarget := downTarget s @ restart\<rparr>
       \<and> HandleTwoWayResponse packet header ospfHeader interface incomingIf s
           = s\<lparr>downTarget := downTarget s @ restart\<rparr>)"
  by (simp add: Handle_defs Send_eqs Let_def)

theorem area_mismatch_only_restarts_witness:
  "getAreaId (PeekOspfHello (ex_packet INIT 0xFFFFFF00 [[ex_self_record]] 1 (Some 0)))
     \<noteq> m_areaId (ex_router [[ex_peer_record]])
   \<and> HandleDownResponse (ex_packet INIT 0xFFFFFF00 [[ex_self_record]] 1 (Some 0)) ex_header
        (ex_ospfHeader INIT 0xFFFFFF00) ex_interface 0 (ex_router [[ex_peer_record]])
      = ex_router [[ex_peer_record]]
   \<and> HandleInitResponse (ex_packet INIT 0xFFFFFF00 [[ex_self_record]] 1 (Some 0)) ex_header
        (ex_ospfHeader INIT 0xFFFFFF00) ex_interface 0 (ex_router [[ex_peer_record]])
      = (ex_router [[ex_peer_record]])
          \<lparr>downTarget := [hello_packet DOWN ex_address OSPF_ALL_NODE
                             (ex_router [[ex_peer_record]])]\<rparr>
   \<and> HandleTwoWayResponse (ex_packet INIT 0xFFFFFF00 [[ex_self_record]] 1 (Some 0)) ex_header
        (ex_ospfHeader INIT 0xFFFFFF00) ex_interface 0 (ex_router [[ex_peer_record]])
      = (ex_router [[ex_peer_record]])
          \<lparr>downTarget := [hello_packet DOWN ex_address OSPF_ALL_NODE
                             (ex_router [[ex_peer_record]])]\<rparr>"
  using area_mismatch_only_restarts [of "ex_packet INIT 0xFFFFFF00 [[ex_self_record]] 1 (Some 0)"
      "ex_router [[ex_peer_record]]" ex_interface 0 ex_header "ex_ospfHeader INIT 0xFFFFFF00"]
  by (simp add: ex_defs Let_def)

text \<open>
  The claim as stated fails: router 1 (area 0, empty table) handles an Init-state packet
  of area 1 on its global-scope interface and a Down-state packet goes out.
\<close>

theorem area_mismatch_reply_counterexample:
  "getAreaId (PeekOspfHello (ex_packet INIT 0xFFFFFF00 [[ex_self_record]] 1 (Some 0)))
     \<noteq> m_areaId (ex_router [])
   \<and> downTarget (ex_router []) = []
   \<and> downTarget
        (HandleInitResponse (ex_packet INIT 0xFFFFFF00 [[ex_self_record]] 1 (Some 0)) ex_header
           (ex_ospfHeader INIT 0xFFFFFF00) ex_interface 0 (ex_router []))
      = [hello_packet DOWN ex_address OSPF_ALL_NODE (ex_router [])]"
  by (simp add: ex_defs Handle_defs Send_eqs Let_def scan_router_id_def)

subsection \<open>A Down packet met with an empty table\<close>

text \<open>
  Claim C2, as the code has it. A Down-state packet of the local area whose mask equals the
  mask of the receiving interface's address, handled with an empty neighbour table, leaves
  a table with exactly one record: the sender's router id, the packet's source address and
  mask, the receiving interface, state Down. Exactly one Init-state packet addressed to the
  packet's source is handed to the transport if the address of the receiving interface is
  not of host scope; if it is, none is.
\<close>

theorem down_on_empty_table:
  "getAreaId (PeekOspfHello packet) = m_areaId s \<Longrightarrow>
   GetHeaderMask ospfHeader = GetMask (GetAddress interface incomingIf) \<Longrightarrow>
   GetState ospfHeader = States_int DOWN \<Longrightarrow>
   m_neighbor_table s = [] \<Longrightarrow>
     (let a = GetAddress interface incomingIf;
          s' = HandleDownResponse packet header ospfHeader interface incomingIf s
      in concat (m_neighbor_table s')
           = [\<lparr>ipAddress = GetSource header, ipMask = GetHeaderMask ospfHeader,
                ipInterface = interface, state = States_int DOWN,
                router_id = getRouterId (PeekOspfHello packet)\<rparr>]
       \<and> downTarget s' = downTarget s @
            (if GetScope a \<noteq> HOST
             then [hello_packet INIT a (GetSource header)
                     (s\<lparr>m_neighbor_table := m_neighbor_table s'\<rparr>)]
             else []))"
  by (simp add: Handle_defs Send_eqs Let_def addNeighbors_def scan_router_id_Nil)

theorem down_on_empty_table_witness:
  "getAreaId (PeekOspfHello (ex_packet DOWN 0xFFFFFF00 [] 0 (Some 0))) = m_areaId (ex_router [])
   \<and> GetHeaderMask (ex_ospfHeader DOWN 0xFFFFFF00) = GetMask (GetAddress ex_interface 0)
   \<and> GetState (ex_ospfHeader DOWN 0xFFFFFF00) = States_int DOWN
   \<and> m_neighbor_table (ex_router []) = []
   \<and> concat (m_neighbor_table
        (HandleDownResponse (ex_packet DOWN 0xFFFFFF00 [] 0 (Some 0)) ex_header
           (ex_ospfHeader DOWN 0xFFFFFF00) ex_interface 0 (ex_router [])))
      = [ex_peer_record]
   \<and> map txDaddr (downTarget
        (HandleDownResponse (ex_packet DOWN 0xFFFFFF00 [] 0 (Some 0)) ex_header
           (ex_ospfHeader DOWN 0xFFFFFF00) ex_interface 0 (ex_router [])))
      = [0x0A000102]
   \<and> map (GetState \<circ> txHeader) (downTarget
        (HandleDownResponse (ex_packet DOWN 0xFFFFFF00 [] 0 (Some 0)) ex_header
           (ex_ospfHeader DOWN 0xFFFFFF00) ex_interface 0 (ex_router [])))
      = [States_int INIT]"
  using down_on_empty_table [of "ex_packet DOWN 0xFFFFFF00 [] 0 (Some 0)" "ex_router []"
      "ex_ospfHeader DOWN 0xFFFFFF00" ex_interface 0 ex_header]
  by (simp add: ex_defs Let_def hello_packet_def)

text \<open>
  The claim as stated fails: the same packet arriving on the loopback interface
  (127.0.0.1/8, host scope, mask matching) is recorded, but no Init-state packet is handed
  to the transport.
\<close>

theorem down_on_empty_table_host_counterexample:
  "getAreaId (PeekOspfHello (ex_packet DOWN 0xFF000000 [] 0 (Some 0))) = m_areaId (ex_router [])
   \<and> GetHeaderMask (ex_ospfHeader DOWN 0xFF000000) = GetMask (GetAddress ex_loopback_interface 0)
   \<and> GetState (ex_ospfHeader DOWN 0xFF000000) = States_int DOWN
   \<and> m_neighbor_table (ex_router []) = []
   \<and> downTarget
        (HandleDownResponse (ex_packet DOWN 0xFF000000 [] 0 (Some 0)) ex_header
           (ex_ospfHeader DOWN 0xFF000000) ex_loopback_interface 0 (ex_router []))
      = []"
  by (simp add: ex_defs Handle_defs Send_eqs Let_def addNeighbors_def scan_router_id_Nil)

subsection \<open>An Init packet with an empty snapshot\<close>

text \<open>
  Claim C5, as the code has it. An Init-state packet whose neighbour snapshot is empty
  leaves the neighbour table (and every other member) unchanged, whatever the table holds.
  One Down-state packet for 224.0.0.5 is handed to the transport if the address of the
  receiving interface is not of host scope; if it is, nothing is sent.
\<close>

theorem init_empty_snapshot:
  "getNeighbors (PeekOspfHello packet) = [] \<Longrightarrow>
     (let a = GetAddress interface incomingIf in
      HandleInitResponse packet header ospfHeader interface incomingIf s
        = s\<lparr>downTarget := downTarget s @
               (if GetScope a \<noteq> HOST then [hello_packet DOWN a OSPF_ALL_NODE s] else [])\<rparr>)"
  by (simp add: Handle_defs Send_eqs Let_def)

theorem init_empty_snapshot_witness:
  "getNeighbors (PeekOspfHello (ex_packet INIT 0xFFFFFF00 [] 0 (Some 0))) = []
   \<and> HandleInitResponse (ex_packet INIT 0xFFFFFF00 [] 0 (Some 0)) ex_header
        (ex_ospfHeader INIT 0xFFFFFF00) ex_interface 0 (ex_router [[ex_peer_record]])
      = (ex_router [[ex_peer_record]])
          \<lparr>downTarget := [hello_packet DOWN ex_address OSPF_ALL_NODE
                             (ex_router [[ex_peer_record]])]\<rparr>"
  using init_empty_snapshot [of "ex_packet INIT 0xFFFFFF00 [] 0 (Some 0)" ex_interface 0
      ex_header "ex_ospfHeader INIT 0xFFFFFF00" "ex_router [[ex_peer_record]]"]
  by (simp add: ex_defs Let_def)

text \<open>
  The claim as stated fails: on the loopback interface (host scope) the handler sends no
  Down-state reply.
\<close>

theorem init_empty_snapshot_host_counterexample:
  "getNeighbors (PeekOspfHello (ex_packet INIT 0xFF000000 [] 0 (Some 0))) = []
   \<and> downTarget
        (HandleInitResponse (ex_packet INIT 0xFF000000 [] 0 (Some 0)) ex_header
           (ex_ospfHeader INIT 0xFF000000) ex_loopback_interface 0
           (ex_router [[ex_peer_record]]))
      = []"
  by (simp add: ex_defs Handle_defs Send_eqs Let_def)

subsection \<open>A Two-Way packet from a known peer\<close>

text \<open>
  Claim C3, as the code has it. A Two-Way-state packet that passes the proof of mutual
  visibility (its snapshot holds the local router id and its area is the local area) and
  whose sender is in the local table: if \<^verbatim>\<open>get_State\<close> for the local router id reads
  Two-Way, the protocol object is unchanged (no packet, same table). Otherwise
  \<^verbatim>\<open>set_State(TWO_WAY, m_routerId)\<close> is applied to the table, so a record of the local
  router id then reads Two-Way, and one Two-Way packet addressed to the packet's source is
  handed to the transport, if the address of the receiving interface is not of host scope;
  if it is, no packet is sent.
\<close>

theorem two_way_from_known_peer:
  assumes "\<exists>row\<in>set (getNeighbors (PeekOspfHello packet)). \<exists>n\<in>set row. router_id n = m_routerId s"
    and "getAreaId (PeekOspfHello packet) = m_areaId s"
    and "\<exists>row\<in>set (m_neighbor_table s). \<exists>n\<in>set row.
           router_id n = getRouterId (PeekOspfHello packet)"
  shows
    "(let a = GetAddress interface incomingIf;
          t' = set_State (m_neighbor_table s) (States_int TWO_WAY) (m_routerId s);
          s' = HandleTwoWayResponse packet header ospfHeader interface incomingIf s
      in (get_State (m_neighbor_table s) (m_routerId s) = States_int TWO_WAY \<longrightarrow> s' = s)
       \<and> (get_State (m_neighbor_table s) (m_routerId s) \<noteq> States_int TWO_WAY \<longrightarrow>
            s' = s\<lparr>m_neighbor_table := t',
                    downTarget := downTarget s @
                      (if GetScope a \<noteq> HOST
                       then [hello_packet TWO_WAY a (GetSource header) (s\<lparr>m_neighbor_table := t'\<rparr>)]
                       else [])\<rparr>
            \<and> ((\<exists>row\<in>set (m_neighbor_table s). \<exists>n\<in>set row. router_id n = m_routerId s)
                 \<longrightarrow> get_State t' (m_routerId s) = States_int TWO_WAY)))"
  using assms
  by (simp add: scan_router_id_iff [symmetric] HandleTwoWayResponse_known Send_eqs Let_def
        get_State_set_State_same)

theorem two_way_from_known_peer_witness:
  "(\<exists>row\<in>set (getNeighbors (PeekOspfHello (ex_packet TWO_WAY 0xFFFFFF00 [[ex_self_record]] 0 (Some 0)))).
       \<exists>n\<in>set row. router_id n = m_routerId (ex_router [[ex_peer_record, ex_self_record]]))
   \<and> getAreaId (PeekOspfHello (ex_packet TWO_WAY 0xFFFFFF00 [[ex_self_record]] 0 (Some 0)))
       = m_areaId (ex_router [[ex_peer_record, ex_self_record]])
   \<and> (\<exists>row\<in>set (m_neighbor_table (ex_router [[ex_peer_record, ex_self_record]])).
       \<exists>n\<in>set row. router_id n
          = getRouterId (PeekOspfHello (ex_packet TWO_WAY 0xFFFFFF00 [[ex_self_record]] 0 (Some 0))))
   \<and> HandleTwoWayResponse (ex_packet TWO_WAY 0xFFFFFF00 [[ex_self_record]] 0 (Some 0)) ex_header
        (ex_ospfHeader TWO_WAY 0xFFFFFF00) ex_interface 0
        (ex_router [[ex_peer_record, ex_self_record]])
      = (ex_router [[ex_peer_record, ex_self_record\<lparr>state := 3\<rparr>]])
          \<lparr>downTarget := [hello_packet TWO_WAY ex_address 0x0A000102
                            (ex_router [[ex_peer_record, ex_self_record\<lparr>state := 3\<rparr>]])]\<rparr>
   \<and> HandleTwoWayResponse (ex_packet TWO_WAY 0xFFFFFF00 [[ex_self_record]] 0 (Some 0)) ex_header
        (ex_ospfHeader TWO_WAY 0xFFFFFF00) ex_interface 0
        (ex_router [[ex_peer_record, ex_self_record\<lparr>state := 3\<rparr>]])
      = ex_router [[ex_peer_record, ex_self_record\<lparr>state := 3\<rparr>]]"
  using two_way_from_known_peer [of "ex_packet TWO_WAY 0xFFFFFF00 [[ex_self_record]] 0 (Some 0)"
      "ex_router [[ex_peer_record, ex_self_record]]" ex_interface 0 ex_header
      "ex_ospfHeader TWO_WAY 0xFFFFFF00"]
    two_way_from_known_peer [of "ex_packet TWO_WAY 0xFFFFFF00 [[ex_self_record]] 0 (Some 0)"
      "ex_router [[ex_peer_record, ex_self_record\<lparr>state := 3\<rparr>]]" ex_interface 0 ex_header
      "ex_ospfHeader TWO_WAY 0xFFFFFF00"]
  by (simp add: ex_defs Let_def get_State_def set_State_def)

text \<open>
  The claim as stated fails: on the loopback interface (host scope) the recorded state of
  the local router id is not Two-Way, and still no Two-Way packet is sent.
\<close>

theorem two_way_from_known_peer_host_counterexample:
  "(\<exists>row\<in>set (getNeighbors (PeekOspfHello (ex_packet TWO_WAY 0xFF000000 [[ex_self_record]] 0 (Some 0)))).
       \<exists>n\<in>set row. router_id n = m_routerId (ex_router [[ex_peer_record, ex_self_record]]))
   \<and> getAreaId (PeekOspfHello (ex_packet TWO_WAY 0xFF000000 [[ex_self_record]] 0 (Some 0)))
       = m_areaId (ex_router [[ex_peer_record, ex_self_record]])
   \<and> (\<exists>row\<in>set (m_neighbor_table (ex_router [[ex_peer_record, ex_self_record]])).
       \<exists>n\<in>set row. router_id n
          = getRouterId (PeekOspfHello (ex_packet TWO_WAY 0xFF000000 [[ex_self_record]] 0 (Some 0))))
   \<and> get_State (m_neighbor_table (ex_router [[ex_peer_record, ex_self_record]]))
        (m_routerId (ex_router [[ex_peer_record, ex_self_record]])) \<noteq> States_int TWO_WAY
   \<and> downTarget
        (HandleTwoWayResponse (ex_packet TWO_WAY 0xFF000000 [[ex_self_record]] 0 (Some 0))
           ex_header (ex_ospfHeader TWO_WAY 0xFF000000) ex_loopback_interface 0
           (ex_router [[ex_peer_record, ex_self_record]]))
      = []"
  by (simp add: ex_defs Handle_defs Send_eqs Let_def scan_router_id_def get_State_def
        getCurrentNeighbors_def)

subsection \<open>An Init packet from a known peer\<close>

text \<open>
  Claim C4, as the code has it. An Init-state packet that passes the proof of mutual
  visibility and whose sender is in the local table: the handler applies
  \<^verbatim>\<open>set_State(INIT, m_routerId)\<close>, keyed by the local router id, so a record of the
  local router id then reads Init and the state recorded for a peer with another id stays
  as it was. After that one Two-Way packet, composed from the updated table and addressed
  to the packet's source, is handed to the transport, if the address of the receiving
  interface is not of host scope; if it is, no packet is sent.
\<close>

theorem init_from_known_peer:
  assumes "\<exists>row\<in>set (getNeighbors (PeekOspfHello packet)). \<exists>n\<in>set row. router_id n = m_routerId s"
    and "getAreaId (PeekOspfHello packet) = m_areaId s"
    and "\<exists>row\<in>set (m_neighbor_table s). \<exists>n\<in>set row.
           router_id n = getRouterId (PeekOspfHello packet)"
  shows
    "(let a = GetAddress interface incomingIf;
          t' = set_State (m_neighbor_table s) (States_int INIT) (m_routerId s)
      in HandleInitResponse packet header ospfHeader interface incomingIf s
           = s\<lparr>m_neighbor_table := t',
                downTarget := downTarget s @
                  (if GetScope a \<noteq> HOST
                   then [hello_packet TWO_WAY a (GetSource header) (s\<lparr>m_neighbor_table := t'\<rparr>)]
                   else [])\<rparr>
       \<and> ((\<exists>row\<in>set (m_neighbor_table s). \<exists>n\<in>set row. router_id n = m_routerId s)
            \<longrightarrow> get_State t' (m_routerId s) = States_int INIT)
       \<and> (getRouterId (PeekOspfHello packet) \<noteq> m_routerId s
            \<longrightarrow> get_State t' (getRouterId (PeekOspfHello packet))
                  = get_State (m_neighbor_table s) (getRouterId (PeekOspfHello packet))))"
  using assms
  by (simp add: scan_router_id_iff [symmetric] HandleInitResponse_known Send_eqs Let_def
        get_State_set_State_same get_State_set_State_other)

theorem init_from_known_peer_witness:
  "(\<exists>row\<in>set (getNeighbors (PeekOspfHello (ex_packet INIT 0xFFFFFF00 [[ex_self_record]] 0 (Some 0)))).
       \<exists>n\<in>set row. router_id n = m_routerId (ex_router [[ex_peer_record, ex_self_record]]))
   \<and> getAreaId (PeekOspfHello (ex_packet INIT 0xFFFFFF00 [[ex_self_record]] 0 (Some 0)))
       = m_areaId (ex_router [[ex_peer_record, ex_self_record]])
   \<and> (\<exists>row\<in>set (m_neighbor_table (ex_router [[ex_peer_record, ex_self_record]])).
       \<exists>n\<in>set row. router_id n
          = getRouterId (PeekOspfHello (ex_packet INIT 0xFFFFFF00 [[ex_self_record]] 0 (Some 0))))
   \<and> HandleInitResponse (ex_packet INIT 0xFFFFFF00 [[ex_self_record]] 0 (Some 0)) ex_header
        (ex_ospfHeader INIT 0xFFFFFF00) ex_interface 0
        (ex_router [[ex_peer_record, ex_self_record]])
      = (ex_router [[ex_peer_record, ex_self_record\<lparr>state := 2\<rparr>]])
          \<lparr>downTarget := [hello_packet TWO_WAY ex_address 0x0A000102
                            (ex_router [[ex_peer_record, ex_self_record\<lparr>state := 2\<rparr>]])]\<rparr>"
  using init_from_known_peer [of "ex_packet INIT 0xFFFFFF00 [[ex_self_record]] 0 (Some 0)"
      "ex_router [[ex_peer_record, ex_self_record]]" ex_interface 0 ex_header
      "ex_ospfHeader INIT 0xFFFFFF00"]
  by (simp add: ex_defs Let_def get_State_def set_State_def)

text \<open>
  The claim as stated fails: on the loopback interface (host scope) no Two-Way packet is
  sent.
\<close>

theorem init_from_known_peer_host_counterexample:
  "(\<exists>row\<in>set (getNeighbors (PeekOspfHello (ex_packet INIT 0xFF000000 [[ex_self_record]] 0 (Some 0)))).
       \<exists>n\<in>set row. router_id n = m_routerId (ex_router [[ex_peer_record]]))
   \<and> getAreaId (PeekOspfHello (ex_packet INIT 0xFF000000 [[ex_self_record]] 0 (Some 0)))
       = m_areaId (ex_router [[ex_peer_record]])
   \<and> (\<exists>row\<in>set (m_neighbor_table (ex_router [[ex_peer_record]])).
       \<exists>n\<in>set row. router_id n
          = getRouterId (PeekOspfHello (ex_packet INIT 0xFF000000 [[ex_self_record]] 0 (Some 0))))
   \<and> downTarget
        (HandleInitResponse (ex_packet INIT 0xFF000000 [[ex_self_record]] 0 (Some 0))
           ex_header (ex_ospfHeader INIT 0xFF000000) ex_loopback_interface 0
           (ex_router [[ex_peer_record]]))
      = []"
  by (simp add: ex_defs Handle_defs Send_eqs Let_def scan_router_id_def
        getCurrentNeighbors_def)

subsection \<open>The lookup of the local router id\<close>

text \<open>
  Claim C6, as the code has it. \<^verbatim>\<open>get_State\<close> for a router id without a record yields
  the not-found value, which is the code of no state. The Two-Way handler does not test
  for it: it compares the value with \<^verbatim>\<open>TWO_WAY\<close> and nothing else. So with the local
  router id absent from the table (the proof passed, the sender known) the handler goes on
  as for a recorded state other than Two-Way: it applies
  \<^verbatim>\<open>set_State(TWO_WAY, m_routerId)\<close> and sends the Two-Way reply (unless the address of
  the receiving interface is of host scope).
\<close>

theorem two_way_lookup_unchecked:
  assumes "\<exists>row\<in>set (getNeighbors (PeekOspfHello packet)). \<exists>n\<in>set row. router_id n = m_routerId s"
    and "getAreaId (PeekOspfHello packet) = m_areaId s"
    and "\<exists>row\<in>set (m_neighbor_table s). \<exists>n\<in>set row.
           router_id n = getRouterId (PeekOspfHello packet)"
    and "\<forall>row\<in>set (m_neighbor_table s). \<forall>n\<in>set row. router_id n \<noteq> m_routerId s"
  shows
    "(let a = GetAddress interface incomingIf;
          t' = set_State (m_neighbor_table s) (States_int TWO_WAY) (m_routerId s)
      in get_State (m_neighbor_table s) (m_routerId s) = NOT_FOUND
       \<and> (\<forall>st. States_int st \<noteq> NOT_FOUND)
       \<and> HandleTwoWayResponse packet header ospfHeader interface incomingIf s
           = s\<lparr>m_neighbor_table := t',
                downTarget := downTarget s @
                  (if GetScope a \<noteq> HOST
                   then [hello_packet TWO_WAY a (GetSource header) (s\<lparr>m_neighbor_table := t'\<rparr>)]
                   else [])\<rparr>)"
proof -
  have absent: "\<not> scan_router_id (m_routerId s) (m_neighbor_table s)"
    using assms(4) by (simp add: scan_router_id_iff)
  then have nf: "get_State (m_neighbor_table s) (m_routerId s) = NOT_FOUND"
    by (rule get_State_absent)
  then have "get_State (m_neighbor_table s) (m_routerId s) \<noteq> States_int TWO_WAY"
    using NOT_FOUND_no_state [of TWO_WAY] by simp
  then show ?thesis
    using assms(1-3) nf
    by (simp add: scan_router_id_iff [symmetric] HandleTwoWayResponse_known Send_eqs Let_def
          NOT_FOUND_no_state)
qed

theorem two_way_lookup_unchecked_witness:
  "(\<exists>row\<in>set (getNeighbors (PeekOspfHello (ex_packet TWO_WAY 0xFFFFFF00 [[ex_self_record]] 0 (Some 0)))).
       \<exists>n\<in>set row. router_id n = m_routerId (ex_router [[ex_peer_record]]))
   \<and> getAreaId (PeekOspfHello (ex_packet TWO_WAY 0xFFFFFF00 [[ex_self_record]] 0 (Some 0)))
       = m_areaId (ex_router [[ex_peer_record]])
   \<and> (\<exists>row\<in>set (m_neighbor_table (ex_router [[ex_peer_record]])).
       \<exists>n\<in>set row. router_id n
          = getRouterId (PeekOspfHello (ex_packet TWO_WAY 0xFFFFFF00 [[ex_self_record]] 0 (Some 0))))
   \<and> \<not> scan_router_id (m_routerId (ex_router [[ex_peer_record]]))
          (m_neighbor_table (ex_router [[ex_peer_record]]))
   \<and> get_State [[ex_peer_record]] 1 = NOT_FOUND
   \<and> HandleTwoWayResponse (ex_packet TWO_WAY 0xFFFFFF00 [[ex_self_record]] 0 (Some 0)) ex_header
        (ex_ospfHeader TWO_WAY 0xFFFFFF00) ex_interface 0 (ex_router [[ex_peer_record]])
      = (ex_router [[ex_peer_record]])
          \<lparr>downTarget := [hello_packet TWO_WAY ex_address 0x0A000102
                            (ex_router [[ex_peer_record]])]\<rparr>"
  using two_way_lookup_unchecked [of "ex_packet TWO_WAY 0xFFFFFF00 [[ex_self_record]] 0 (Some 0)"
      "ex_router [[ex_peer_record]]" ex_interface 0 ex_header
      "ex_ospfHeader TWO_WAY 0xFFFFFF00"]
  by (simp add: ex_defs Let_def set_State_def scan_router_id_def)

text \<open>
  The claim as stated fails: router 1 knows its peer and has no record of its own id; the
  lookup yields the not-found value, and the handler goes past it and emits a Two-Way
  packet.
\<close>

theorem two_way_lookup_unchecked_counterexample:
  "\<not> scan_router_id (m_routerId (ex_router [[ex_peer_record]]))
        (m_neighbor_table (ex_router [[ex_peer_record]]))
   \<and> get_State (m_neighbor_table (ex_router [[ex_peer_record]]))
        (m_routerId (ex_router [[ex_peer_record]])) = NOT_FOUND
   \<and> downTarget (ex_router [[ex_peer_record]]) = []
   \<and> downTarget
        (HandleTwoWayResponse (ex_packet TWO_WAY 0xFFFFFF00 [[ex_self_record]] 0 (Some 0))
           ex_header (ex_ospfHeader TWO_WAY 0xFFFFFF00) ex_interface 0
           (ex_router [[ex_peer_record]]))
      = [hello_packet TWO_WAY ex_address 0x0A000102 (ex_router [[ex_peer_record]])]"
  by (simp add: ex_defs Handle_defs Send_eqs Let_def scan_router_id_def get_State_def
        set_State_def getCurrentNeighbors_def NOT_FOUND_def)

subsection \<open>Down packets with a foreign mask\<close>

text \<open>
  Claim C7. A Down-state packet whose advertised mask differs from the mask of the address
  of the receiving interface changes nothing: the handler returns the protocol object as
  it was (same neighbour table, nothing handed to the transport), and so does
  \<^verbatim>\<open>Receive\<close> for such a packet.
\<close>

theorem mask_mismatch_ignored:
  "GetHeaderMask ospfHeader \<noteq> GetMask (GetAddress interface incomingIf) \<Longrightarrow>
     HandleDownResponse packet header ospfHeader interface incomingIf s = s
     \<and> (PeekOspfHeader packet = ospfHeader \<and> GetState ospfHeader = States_int DOWN
          \<and> PacketInfoTag packet = Some incomingIf
        \<longrightarrow> Receive packet header interface s = Inr (RX_OK, s))"
  by (simp add: HandleDownResponse_def Receive_def)

theorem mask_mismatch_ignored_witness:
  "GetHeaderMask (ex_ospfHeader DOWN 0xFFFF0000) \<noteq> GetMask (GetAddress ex_interface 0)
   \<and> HandleDownResponse (ex_packet DOWN 0xFFFF0000 [] 0 (Some 0)) ex_header
        (ex_ospfHeader DOWN 0xFFFF0000) ex_interface 0 (ex_router [[ex_peer_record]])
      = ex_router [[ex_peer_record]]
   \<and> Receive (ex_packet DOWN 0xFFFF0000 [] 0 (Some 0)) ex_header ex_interface
        (ex_router [[ex_peer_record]])
      = Inr (RX_OK, ex_router [[ex_peer_record]])"
  using mask_mismatch_ignored [of "ex_ospfHeader DOWN 0xFFFF0000" ex_interface 0
      "ex_packet DOWN 0xFFFF0000 [] 0 (Some 0)" ex_header "ex_router [[ex_peer_record]]"]
  by (simp add: ex_defs)

subsection \<open>Packets without the incoming-interface tag\<close>

text \<open>
  Claim C9. A packet delivered to \<^verbatim>\<open>Receive\<close> without an incoming-interface tag makes
  \<^verbatim>\<open>Receive\<close> abort: the result is the fatal error, whatever the header asserts, and no
  handler has run (no protocol object is returned, so no table access and no reply).
\<close>

theorem missing_tag_aborts:
  "PacketInfoTag packet = None \<Longrightarrow>
     Receive packet header interface s = Inl ABORT_No_incoming_interface"
  by (simp add: Receive_def)

theorem missing_tag_aborts_witness:
  "PacketInfoTag (ex_packet DOWN 0xFFFFFF00 [] 0 None) = None
   \<and> Receive (ex_packet DOWN 0xFFFFFF00 [] 0 None) ex_header ex_interface (ex_router [])
      = Inl ABORT_No_incoming_interface"
  using missing_tag_aborts [of "ex_packet DOWN 0xFFFFFF00 [] 0 None" ex_header ex_interface
      "ex_router []"]
  by (simp add: ex_defs)

subsection \<open>One record per router id\<close>

lemma table_Send [simp]:
  "m_neighbor_table (SendDownPacket a s) = m_neighbor_table s"
  "m_neighbor_table (SendInitPacket a d s) = m_neighbor_table s"
  "m_neighbor_table (SendTwoWayPacket a d s) = m_neighbor_table s"
  by (simp_all add: Send_eqs)

lemma distinct_HandleDownResponse:
  "distinct (map router_id (concat (m_neighbor_table s))) \<Longrightarrow>
     distinct (map router_id (concat (m_neighbor_table
       (HandleDownResponse packet header ospfHeader interface incomingIf s))))"
  by (simp add: HandleDownResponse_def Let_def distinct_addNeighbors)

lemma distinct_HandleInitResponse:
  "distinct (map router_id (concat (m_neighbor_table s))) \<Longrightarrow>
     distinct (map router_id (concat (m_neighbor_table
       (HandleInitResponse packet header ospfHeader interface incomingIf s))))"
  by (simp add: HandleInitResponse_def Let_def distinct_addNeighbors distinct_set_State)

lemma distinct_HandleTwoWayResponse:
  "distinct (map router_id (concat (m_neighbor_table s))) \<Longrightarrow>
     distinct (map router_id (concat (m_neighbor_table
       (HandleTwoWayResponse packet header ospfHeader interface incomingIf s))))"
  by (simp add: HandleTwoWayResponse_def Let_def distinct_set_State)

lemma distinct_Receive:
  assumes "distinct (map router_id (concat (m_neighbor_table s)))"
    and "Receive packet header interface s = Inr (rx, s')"
  shows "distinct (map router_id (concat (m_neighbor_table s')))"
  using assms
  by (auto simp: Receive_def Let_def distinct_HandleDownResponse distinct_HandleInitResponse
        distinct_HandleTwoWayResponse split: option.splits if_splits)

lemma table_startDownState_address:
  "m_neighbor_table (startDownState_address nt act i j s) = m_neighbor_table s"
  by (simp add: startDownState_address_def Let_def)

lemma table_fold:
  assumes "\<And>x s. m_neighbor_table (f x s) = m_neighbor_table s"
  shows "m_neighbor_table (fold f xs s) = m_neighbor_table s"
  by (induction xs arbitrary: s) (simp_all add: assms)

lemma table_startDownState_interface:
  "m_neighbor_table (startDownState_interface nt i s) = m_neighbor_table s"
  by (simp add: startDownState_interface_def Let_def table_fold table_startDownState_address)

lemma table_startDownState:
  "m_neighbor_table (startDownState s) = m_neighbor_table s"
  by (simp add: startDownState_def Let_def table_fold table_startDownState_interface)

lemma HandleDownResponse_twice:
  "m_neighbor_table (HandleDownResponse packet header ospfHeader interface incomingIf
      (HandleDownResponse packet header ospfHeader interface incomingIf s))
   = m_neighbor_table (HandleDownResponse packet header ospfHeader interface incomingIf s)"
  by (simp add: HandleDownResponse_def Let_def Send_eqs addNeighbors_idem)

text \<open>
  Claim C8. Adding a neighbour twice under one router id is the same as adding it once:
  the second call changes nothing, a table with distinct router ids then holds exactly one
  record of that id, and if the id was new the record carries the attributes of the first
  call. Handling the same valid Down packet twice leaves the table as after the first
  time. Distinctness of the router ids of the table holds for the empty table and is kept
  by each handler, by \<^verbatim>\<open>Receive\<close> and by \<^verbatim>\<open>startDownState\<close>.
\<close>

theorem router_id_unique:
  "distinct (map router_id (concat ([] :: OspfNeighborTable)))
   \<and> (let t1 = addNeighbors t a1 m1 i1 s1 r;
        t2 = addNeighbors t1 a2 m2 i2 s2 r
    in t2 = t1
     \<and> (distinct (map router_id (concat t)) \<longrightarrow>
          distinct (map router_id (concat t2))
          \<and> length (filter (\<lambda>x. router_id x = r) (concat t2)) = 1)
     \<and> (\<not> scan_router_id r t \<longrightarrow>
          filter (\<lambda>x. router_id x = r) (concat t2)
            = [\<lparr>ipAddress = a1, ipMask = m1, ipInterface = i1, state = s1, router_id = r\<rparr>]))
   \<and> m_neighbor_table (HandleDownResponse packet header ospfHeader interface incomingIf
        (HandleDownResponse packet header ospfHeader interface incomingIf s))
      = m_neighbor_table (HandleDownResponse packet header ospfHeader interface incomingIf s)
   \<and> (distinct (map router_id (concat (m_neighbor_table s))) \<longrightarrow>
        distinct (map router_id (concat (m_neighbor_table
          (HandleDownResponse packet header ospfHeader interface incomingIf s))))
        \<and> distinct (map router_id (concat (m_neighbor_table
          (HandleInitResponse packet header ospfHeader interface incomingIf s))))
        \<and> distinct (map router_id (concat (m_neighbor_table
          (HandleTwoWayResponse packet header ospfHeader interface incomingIf s))))
        \<and> (\<forall>rx s'. Receive packet header interface s = Inr (rx, s') \<longrightarrow>
              distinct (map router_id (concat (m_neighbor_table s'))))
        \<and> distinct (map router_id (concat (m_neighbor_table (startDownState s)))))"
proof -
  let ?t1 = "addNeighbors t a1 m1 i1 s1 r"
  have idem: "addNeighbors ?t1 a2 m2 i2 s2 r = ?t1"
    by (rule addNeighbors_idem)
  have one: "length (filter (\<lambda>x. router_id x = r) (concat ?t1)) = 1"
    if "distinct (map router_id (concat t))"
  proof -
    have "distinct (map router_id (concat ?t1))"
      using that by (rule distinct_addNeighbors)
    moreover have "r \<in> router_id ` set (concat ?t1)"
      using scan_router_id_addNeighbors [of r t a1 m1 i1 s1]
      by (simp add: scan_router_id_concat)
    ultimately show ?thesis
      by (rule distinct_filter_one)
  qed
  have first: "filter (\<lambda>x. router_id x = r) (concat ?t1)
     = [\<lparr>ipAddress = a1, ipMask = m1, ipInterface = i1, state = s1, router_id = r\<rparr>]"
    if "\<not> scan_router_id r t"
    using that by (simp add: concat_addNeighbors filter_absent)
  have A: "(let t1 = ?t1; t2 = addNeighbors t1 a2 m2 i2 s2 r
    in t2 = t1
     \<and> (distinct (map router_id (concat t)) \<longrightarrow>
          distinct (map router_id (concat t2))
          \<and> length (filter (\<lambda>x. router_id x = r) (concat t2)) = 1)
     \<and> (\<not> scan_router_id r t \<longrightarrow>
          filter (\<lambda>x. router_id x = r) (concat t2)
            = [\<lparr>ipAddress = a1, ipMask = m1, ipInterface = i1, state = s1, router_id = r\<rparr>]))"
    using one first by (simp add: Let_def idem distinct_addNeighbors)
  have B: "m_neighbor_table (HandleDownResponse packet header ospfHeader interface incomingIf
        (HandleDownResponse packet header ospfHeader interface incomingIf s))
      = m_neighbor_table (HandleDownResponse packet header ospfHeader interface incomingIf s)"
    by (rule HandleDownResponse_twice)
  have C: "distinct (map router_id (concat (m_neighbor_table s))) \<longrightarrow>
        distinct (map router_id (concat (m_neighbor_table
          (HandleDownResponse packet header ospfHeader interface incomingIf s))))
        \<and> distinct (map router_id (concat (m_neighbor_table
          (HandleInitResponse packet header ospfHeader interface incomingIf s))))
        \<and> distinct (map router_id (concat (m_neighbor_table
          (HandleTwoWayResponse packet header ospfHeader interface incomingIf s))))
        \<and> (\<forall>rx s'. Receive packet header interface s = Inr (rx, s') \<longrightarrow>
              distinct (map router_id (concat (m_neighbor_table s'))))
        \<and> distinct (map router_id (concat (m_neighbor_table (startDownState s))))"
    using distinct_Receive [of s packet header interface]
    by (simp add: distinct_HandleDownResponse distinct_HandleInitResponse
          distinct_HandleTwoWayResponse table_startDownState)
  have E: "distinct (map router_id (concat ([] :: OspfNeighborTable)))"
    by simp
  show ?thesis
    by (rule conjI [OF E conjI [OF A conjI [OF B C]]])
qed

theorem router_id_unique_witness:
  "distinct (map router_id (concat ([] :: OspfNeighborTable)))
   \<and> \<not> scan_router_id 2 []
   \<and> addNeighbors (addNeighbors [] 0x0A000102 0xFFFFFF00 ex_interface 0 2)
        0x0A000109 0xFFFF0000 ex_loopback_interface 3 2
      = addNeighbors [] 0x0A000102 0xFFFFFF00 ex_interface 0 2
   \<and> filter (\<lambda>x. router_id x = 2)
        (concat (addNeighbors (addNeighbors [] 0x0A000102 0xFFFFFF00 ex_interface 0 2)
           0x0A000109 0xFFFF0000 ex_loopback_interface 3 2))
      = [ex_peer_record]
   \<and> distinct (map router_id (concat (m_neighbor_table (ex_router [[ex_peer_record]]))))
   \<and> Receive (ex_packet INIT 0xFFFFFF00 [[ex_self_record]] 0 (Some 0)) ex_header ex_interface
        (ex_router [[ex_peer_record]])
      = Inr (RX_OK, (ex_router [[ex_peer_record]])
          \<lparr>downTarget := [hello_packet TWO_WAY ex_address 0x0A000102
                            (ex_router [[ex_peer_record]])]\<rparr>)
   \<and> distinct (map router_id (concat (m_neighbor_table
        ((ex_router [[ex_peer_record]])
          \<lparr>downTarget := [hello_packet TWO_WAY ex_address 0x0A000102
                            (ex_router [[ex_peer_record]])]\<rparr>))))"
  using router_id_unique [where t = "[]" and ?a1.0 = "0x0A000102" and ?m1.0 = "0xFFFFFF00"
      and ?i1.0 = ex_interface and ?s1.0 = 0 and r = 2 and ?a2.0 = "0x0A000109"
      and ?m2.0 = "0xFFFF0000" and ?i2.0 = ex_loopback_interface and ?s2.0 = 3
      and packet = "ex_packet INIT 0xFFFFFF00 [[ex_self_record]] 0 (Some 0)"
      and header = ex_header and interface = ex_interface
      and ospfHeader = "ex_ospfHeader INIT 0xFFFFFF00" and incomingIf = 0
      and s = "ex_router [[ex_peer_record]]"]
  by (simp add: ex_defs Let_def scan_router_id_def Receive_def Handle_defs Send_eqs
        getCurrentNeighbors_def set_State_def addNeighbors_def)

subsection \<open>Destinations\<close>

lemma sends_SendDownPacket:
  "\<exists>new. downTarget (SendDownPacket a s) = downTarget s @ new
     \<and> (\<forall>q\<in>set new. GetState (txHeader q) = States_int DOWN \<and> txDaddr q = OSPF_ALL_NODE)"
  by (simp add: Send_eqs hello_packet_def)

lemma sends_fold:
  assumes "\<And>x s. \<exists>new. downTarget (f x s) = downTarget s @ new \<and> (\<forall>q\<in>set new. P q)"
  shows "\<exists>new. downTarget (fold f xs s) = downTarget s @ new \<and> (\<forall>q\<in>set new. P q)"
proof (induction xs arbitrary: s)
  case Nil
  show ?case by simp
next
  case (Cons x xs)
  from assms [of x s] obtain new1
    where 1: "downTarget (f x s) = downTarget s @ new1" "\<forall>q\<in>set new1. P q"
    by blast
  from Cons.IH [of "f x s"] obtain new2
    where 2: "downTarget (fold f xs (f x s)) = downTarget (f x s) @ new2" "\<forall>q\<in>set new2. P q"
    by blast
  from 1 2 have "downTarget (fold f (x # xs) s) = downTarget s @ (new1 @ new2)
      \<and> (\<forall>q\<in>set (new1 @ new2). P q)"
    by auto
  then show ?case by blast
qed

lemma sends_startDownState_address:
  "\<exists>new. downTarget (startDownState_address nt act i j s) = downTarget s @ new
     \<and> (\<forall>q\<in>set new. GetState (txHeader q) = States_int DOWN \<and> txDaddr q = OSPF_ALL_NODE)"
  using sends_SendDownPacket [of "GetAddressOf (m_ipv4 s) i j" s]
  by (simp add: startDownState_address_def Let_def)

lemma sends_startDownState_interface:
  "\<exists>new. downTarget (startDownState_interface nt i s) = downTarget s @ new
     \<and> (\<forall>q\<in>set new. GetState (txHeader q) = States_int DOWN \<and> txDaddr q = OSPF_ALL_NODE)"
proof (cases "IsLoopbackNetDevice (m_ipv4 s) i")
  case True
  then show ?thesis by (simp add: startDownState_interface_def)
next
  case False
  let ?s1 = "if i \<notin> m_interfaceExclusions s
             then s\<lparr>m_ipv4 := SetForwarding (m_ipv4 s) i True\<rparr> else s"
  have "\<exists>new. downTarget (fold (startDownState_address nt (i \<notin> m_interfaceExclusions s) i)
                 [0..<GetNAddresses (m_ipv4 ?s1) i] ?s1) = downTarget ?s1 @ new
     \<and> (\<forall>q\<in>set new. GetState (txHeader q) = States_int DOWN \<and> txDaddr q = OSPF_ALL_NODE)"
    by (rule sends_fold) (rule sends_startDownState_address)
  moreover have "downTarget ?s1 = downTarget s"
    by simp
  ultimately show ?thesis
    using False by (simp add: startDownState_interface_def Let_def)
qed

lemma sends_startDownState:
  "\<exists>new. downTarget (startDownState s) = downTarget s @ new
     \<and> (\<forall>q\<in>set new. GetState (txHeader q) = States_int DOWN \<and> txDaddr q = OSPF_ALL_NODE)"
  unfolding startDownState_def Let_def
  by (rule sends_fold) (rule sends_startDownState_interface)

lemma sends_HandleDownResponse:
  "\<exists>new. downTarget (HandleDownResponse packet header ospfHeader interface incomingIf s)
            = downTarget s @ new
     \<and> (\<forall>q\<in>set new.
          (GetState (txHeader q) = States_int DOWN \<longrightarrow> txDaddr q = OSPF_ALL_NODE)
          \<and> (GetState (txHeader q) = States_int INIT \<or> GetState (txHeader q) = States_int TWO_WAY
               \<longrightarrow> txDaddr q = GetSource header))"
  by (simp add: HandleDownResponse_def Let_def Send_eqs hello_packet_def)

lemma sends_HandleInitResponse:
  "\<exists>new. downTarget (HandleInitResponse packet header ospfHeader interface incomingIf s)
            = downTarget s @ new
     \<and> (\<forall>q\<in>set new.
          (GetState (txHeader q) = States_int DOWN \<longrightarrow> txDaddr q = OSPF_ALL_NODE)
          \<and> (GetState (txHeader q) = States_int INIT \<or> GetState (txHeader q) = States_int TWO_WAY
               \<longrightarrow> txDaddr q = GetSource header))"
  by (simp add: HandleInitResponse_def Let_def Send_eqs hello_packet_def)

lemma sends_HandleTwoWayResponse:
  "\<exists>new. downTarget (HandleTwoWayResponse packet header ospfHeader interface incomingIf s)
            = downTarget s @ new
     \<and> (\<forall>q\<in>set new.
          (GetState (txHeader q) = States_int DOWN \<longrightarrow> txDaddr q = OSPF_ALL_NODE)
          \<and> (GetState (txHeader q) = States_int INIT \<or> GetState (txHeader q) = States_int TWO_WAY
               \<longrightarrow> txDaddr q = GetSource header))"
  by (simp add: HandleTwoWayResponse_def Let_def Send_eqs hello_packet_def)

lemma Receive_cases:
  assumes "Receive packet header interface s = Inr (rx, s')"
  obtains incomingIf where "PacketInfoTag packet = Some incomingIf" and "rx = RX_OK"
    and "s' = HandleDownResponse packet header (PeekOspfHeader packet) interface incomingIf s
       \<or> s' = HandleInitResponse packet header (PeekOspfHeader packet) interface incomingIf s
       \<or> s' = HandleTwoWayResponse packet header (PeekOspfHeader packet) interface incomingIf s
       \<or> s' = s"
  using assms
  by (auto simp: Receive_def Let_def split: option.splits if_splits)

lemma sends_Receive:
  assumes "Receive packet header interface s = Inr (rx, s')"
  shows "\<exists>new. downTarget s' = downTarget s @ new
     \<and> (\<forall>q\<in>set new.
          (GetState (txHeader q) = States_int DOWN \<longrightarrow> txDaddr q = OSPF_ALL_NODE)
          \<and> (GetState (txHeader q) = States_int INIT \<or> GetState (txHeader q) = States_int TWO_WAY
               \<longrightarrow> txDaddr q = GetSource header))"
proof -
  from assms obtain incomingIf where
    "s' = HandleDownResponse packet header (PeekOspfHeader packet) interface incomingIf s
       \<or> s' = HandleInitResponse packet header (PeekOspfHeader packet) interface incomingIf s
       \<or> s' = HandleTwoWayResponse packet header (PeekOspfHeader packet) interface incomingIf s
       \<or> s' = s"
    by (rule Receive_cases)
  then show ?thesis
    using sends_HandleDownResponse [of packet header "PeekOspfHeader packet" interface incomingIf s]
      sends_HandleInitResponse [of packet header "PeekOspfHeader packet" interface incomingIf s]
      sends_HandleTwoWayResponse [of packet header "PeekOspfHeader packet" interface incomingIf s]
    by (elim disjE) simp_all
qed

text \<open>
  Claim C10. Whatever \<^verbatim>\<open>Receive\<close> hands to the transport while it handles a packet is
  appended to what was handed over before, and of the appended packets every Down-state
  one is addressed to 224.0.0.5 and every Init-state or Two-Way-state one to the source
  address of the packet being handled. \<^verbatim>\<open>startDownState\<close> appends only Down-state
  packets for 224.0.0.5. The three senders: \<^verbatim>\<open>SendDownPacket\<close> takes no destination
  and uses 224.0.0.5, the other two use the destination they are given.
\<close>

theorem destinations_by_state:
  "(\<forall>rx s'. Receive packet header interface s = Inr (rx, s') \<longrightarrow>
      (\<exists>new. downTarget s' = downTarget s @ new
         \<and> (\<forall>q\<in>set new.
              (GetState (txHeader q) = States_int DOWN \<longrightarrow> txDaddr q = OSPF_ALL_NODE)
              \<and> (GetState (txHeader q) = States_int INIT
                   \<or> GetState (txHeader q) = States_int TWO_WAY
                  \<longrightarrow> txDaddr q = GetSource header))))
   \<and> (\<exists>new. downTarget (startDownState s) = downTarget s @ new
         \<and> (\<forall>q\<in>set new. GetState (txHeader q) = States_int DOWN
                          \<and> txDaddr q = OSPF_ALL_NODE))
   \<and> downTarget (SendDownPacket a s)
       = downTarget s @ (if GetScope a \<noteq> HOST then [hello_packet DOWN a OSPF_ALL_NODE s] else [])
   \<and> downTarget (SendInitPacket a daddr s)
       = downTarget s @ (if GetScope a \<noteq> HOST then [hello_packet INIT a daddr s] else [])
   \<and> downTarget (SendTwoWayPacket a daddr s)
       = downTarget s @ (if GetScope a \<noteq> HOST then [hello_packet TWO_WAY a daddr s] else [])"
  using sends_Receive [of packet header interface s] sends_startDownState [of s]
  by (simp add: Send_eqs)

theorem destinations_by_state_witness:
  "Receive (ex_packet DOWN 0xFFFFFF00 [] 0 (Some 0)) ex_header ex_interface (ex_router [])
     = Inr (RX_OK, (ex_router [[ex_peer_record]])
         \<lparr>downTarget := [hello_packet INIT ex_address 0x0A000102
                           (ex_router [[ex_peer_record]])]\<rparr>)
   \<and> downTarget ((ex_router [[ex_peer_record]])
         \<lparr>downTarget := [hello_packet INIT ex_address 0x0A000102
                           (ex_router [[ex_peer_record]])]\<rparr>)
       = downTarget (ex_router [])
           @ [hello_packet INIT ex_address 0x0A000102 (ex_router [[ex_peer_record]])]
   \<and> GetState (txHeader (hello_packet INIT ex_address 0x0A000102 (ex_router [[ex_peer_record]])))
       = States_int INIT
   \<and> txDaddr (hello_packet INIT ex_address 0x0A000102 (ex_router [[ex_peer_record]]))
       = GetSource ex_header
   \<and> downTarget (startDownState (ex_router []))
       = [hello_packet DOWN ex_address OSPF_ALL_NODE (ex_router [])]
   \<and> GetState (txHeader (hello_packet DOWN ex_address OSPF_ALL_NODE (ex_router [])))
       = States_int DOWN
   \<and> txDaddr (hello_packet DOWN ex_address OSPF_ALL_NODE (ex_router [])) = OSPF_ALL_NODE"
  using destinations_by_state [of "ex_packet DOWN 0xFFFFFF00 [] 0 (Some 0)" ex_header
      ex_interface "ex_router []" ex_address "0x0A000102"]
  by (simp add: ex_defs Receive_def Handle_defs Send_eqs Let_def addNeighbors_def
        scan_router_id_Nil hello_packet_def helloHeader_of_def getCurrentNeighbors_def
        startDownState_def startDownState_interface_def startDownState_address_def
        isInterfaceFull_def upt_rec SetForwarding_def)

end
